theory Spec2Isabelle
  imports Main "HOL-Library.Option_ord" "HOL-Library.Multiset"
begin

section \<open>Data model (news_app/models.py)\<close>

text \<open>
  Rows are records; a foreign key holds the primary key of the row it refers to
  (\<open>None\<close> for NULL), a many-to-many relation is the set of primary keys on its far
  side. Two model instances are equal in Django when their primary keys are, so every
  comparison of users in the views is a comparison of primary keys. Timestamps are
  integers (seconds); every read of the clock during one request returns the value
  \<open>now\<close> handed to the view.
\<close>

datatype role = Reader | Editor | Journalist | Publisher_role

text \<open>\<open>CustomUser\<close>. \<open>full_name\<close> stands for the framework's \<open>get_full_name()\<close>,
  \<open>groups\<close> holds the names of the auth groups of the user.\<close>

record user =
  pk :: "nat option"
  username :: string
  full_name :: string
  email :: string
  role :: role
  subscribed_newsletters :: "nat set"
  subscribed_publishers :: "nat set"
  subscribed_journalists :: "nat set"
  groups :: "string set"

record publisher =
  p_id :: nat
  p_name :: string
  description :: string
  website :: string
  owner :: "nat option"
  created_by :: "nat option"
  editors :: "nat set"
  journalists :: "nat set"

record article =
  aid :: nat
  title :: string
  content :: string
  summary :: string
  author :: "nat option"
  publisher :: "nat option"
  independently_published :: bool
  is_approved :: bool
  approved_by :: "nat option"
  is_rejected :: bool
  rejected_reason :: "string option"
  rejected_by :: "nat option"
  approval_date :: "int option"
  rejected_date :: "int option"
  created_at :: int
  updated_at :: int
  published_date :: "int option"
  image_file :: "string option"

datatype jr_status = Pending | Approved | Rejected

record join_request =
  jr_user :: nat
  jr_publisher :: nat
  status :: jr_status
  message :: string
  jr_created_at :: int
  reviewed_at :: "int option"
  reviewed_by :: "nat option"

text \<open>What a view reads besides the row it works on: the user table, the name column of
  the publisher table, and two settings.\<close>

record ctx =
  users :: "user list"
  publisher_name :: "nat \<Rightarrow> string"
  default_from_email :: string
  enable_twitter :: bool

definition find_user :: "ctx \<Rightarrow> nat \<Rightarrow> user option" where
  "find_user c i = find (\<lambda>u. pk u = Some i) (users c)"

definition user_role :: "ctx \<Rightarrow> nat \<Rightarrow> role option" where
  "user_role c i = map_option role (find_user c i)"

definition get_role_display :: "role \<Rightarrow> string" where
  "get_role_display r =
     (case r of Reader \<Rightarrow> ''Reader'' | Editor \<Rightarrow> ''Editor''
      | Journalist \<Rightarrow> ''Journalist'' | Publisher_role \<Rightarrow> ''Publisher'')"

subsection \<open>Article.status and Article.clean\<close>

definition article_status :: "article \<Rightarrow> string" where
  "article_status a =
     (if is_rejected a then ''rejected''
      else if is_approved a then ''approved''
      else ''pending'')"

datatype validation = Valid | ValidationError string

text \<open>\<open>Article.clean\<close>. A key that is \<open>0\<close> is falsy in Python, as \<open>None\<close> is. A
  foreign key whose row is missing makes the source raise as well (it cannot happen
  under the database's foreign-key constraint); the model reports it as a failed
  validation.\<close>

definition Article_clean :: "ctx \<Rightarrow> article \<Rightarrow> validation" where
  "Article_clean c a =
     (if (case author a of None \<Rightarrow> False
          | Some i \<Rightarrow> i \<noteq> 0 \<and> user_role c i \<noteq> Some Journalist)
      then ValidationError ''Only users with 'journalist' role can author articles.''
      else if (case approved_by a of None \<Rightarrow> False
               | Some e \<Rightarrow> e \<noteq> 0 \<and> user_role c e \<noteq> Some Editor)
      then ValidationError ''Only users with 'editor' role can approve articles.''
      else if independently_published a \<and>
              (is_approved a \<or> is_rejected a \<or> approved_by a \<noteq> None \<or> rejected_by a \<noteq> None)
      then ValidationError
             ''Independent articles cannot be approved or rejected by an editor.''
      else Valid)"

section \<open>Signals on saving an article (news_app/signals.py)\<close>

record mail =
  subject :: string
  body :: string
  from_email :: string
  recipient_list :: "string list"

datatype effect = MassMail "mail list" | Tweet string

definition nl :: string where
  "nl = [CHR 0x0A]"

text \<open>Python's \<open>s[:r]\<close> for an integer \<open>r\<close> that may be negative. Lengths count the
  characters of the model's strings.\<close>

definition slice_to :: "string \<Rightarrow> int \<Rightarrow> string" where
  "slice_to s r = (if 0 \<le> r then take (nat r) s else take (nat (int (length s) + r)) s)"

text \<open>\<open>pre_save\<close>: \<open>set_approval_date\<close>. \<open>old\<close> is the stored row with the instance's
  primary key, \<open>None\<close> when there is none.\<close>

definition set_approval_date :: "int \<Rightarrow> article option \<Rightarrow> article \<Rightarrow> article" where
  "set_approval_date now old inst =
     (case old of
        None \<Rightarrow> inst
      | Some prev \<Rightarrow>
          if \<not> is_approved prev \<and> is_approved inst
          then inst\<lparr>approval_date := Some now,
                    published_date :=
                      (if published_date inst = None then Some now else published_date inst)\<rparr>
          else inst)"

text \<open>The subscribers collected by \<open>send_email_notifications\<close>: a Python set of users,
  here a list without repetitions. The source does not fix the order in which the set
  is walked; the model takes the order of the user table.\<close>

definition publisher_subscribers :: "ctx \<Rightarrow> article \<Rightarrow> user list" where
  "publisher_subscribers c a =
     (case publisher a of
        None \<Rightarrow> []
      | Some p \<Rightarrow> filter (\<lambda>u. p \<in> subscribed_publishers u) (users c))"

definition journalist_subscribers :: "ctx \<Rightarrow> article \<Rightarrow> user list" where
  "journalist_subscribers c a =
     (case author a of
        None \<Rightarrow> []
      | Some j \<Rightarrow> filter (\<lambda>u. j \<in> subscribed_journalists u) (users c))"

definition subscribers :: "ctx \<Rightarrow> article \<Rightarrow> user list" where
  "subscribers c a =
     filter (\<lambda>u. pk u \<noteq> author a)
       (remdups (publisher_subscribers c a @ journalist_subscribers c a))"

definition author_display :: "ctx \<Rightarrow> article \<Rightarrow> string" where
  "author_display c a =
     (case author a of
        None \<Rightarrow> []
      | Some j \<Rightarrow>
          (case find_user c j of
             None \<Rightarrow> []
           | Some u \<Rightarrow> if full_name u \<noteq> [] then full_name u else username u))"

definition mail_subject :: "article \<Rightarrow> string" where
  "mail_subject a = ''New Article Published: '' @ title a"

definition mail_message :: "ctx \<Rightarrow> article \<Rightarrow> string" where
  "mail_message c a =
     nl @ ''Hello,'' @ nl @ nl
     @ ''A new article has been published that you might be interested in:'' @ nl @ nl
     @ ''Title: '' @ title a @ nl
     @ ''Author: '' @ author_display c a @ nl
     @ ''Publisher: ''
     @ (case publisher a of Some p \<Rightarrow> publisher_name c p | None \<Rightarrow> ''Independent'') @ nl
     @ nl @ ''Summary:'' @ nl
     @ (if summary a \<noteq> [] then summary a else take 200 (content a) @ ''...'') @ nl
     @ nl @ ''Read the full article on our website.'' @ nl @ nl
     @ ''Best regards,'' @ nl @ ''The News Team'' @ nl @ ''    ''"

definition mail_for :: "ctx \<Rightarrow> article \<Rightarrow> user \<Rightarrow> mail" where
  "mail_for c a u =
     \<lparr>subject = mail_subject a, body = mail_message c a,
      from_email = default_from_email c, recipient_list = [email u]\<rparr>"

text \<open>The list \<open>emails\<close> that \<open>send_email_notifications\<close> prepares.\<close>

definition prepared_emails :: "ctx \<Rightarrow> article \<Rightarrow> mail list" where
  "prepared_emails c a =
     map (mail_for c a) (filter (\<lambda>u. email u \<noteq> []) (subscribers c a))"

text \<open>\<open>send_email_notifications\<close>: the batch handed to \<open>send_mass_mail\<close>, if any. A
  failure of the delivery is caught inside the function.\<close>

definition send_email_notifications :: "ctx \<Rightarrow> article \<Rightarrow> effect list" where
  "send_email_notifications c a =
     (if subscribers c a = [] then []
      else if prepared_emails c a \<noteq> [] then [MassMail (prepared_emails c a)]
      else [])"

definition build_tweet_text :: "article \<Rightarrow> string" where
  "build_tweet_text a =
     (let tweet_text = ''New Article: '' @ title a @ nl @ nl;
          remaining_chars = 280 - int (length tweet_text) - 3
      in if summary a \<noteq> []
         then (if int (length (summary a)) \<le> remaining_chars
               then tweet_text @ summary a
               else tweet_text @ slice_to (summary a) remaining_chars @ ''...'')
         else tweet_text @ slice_to (content a) remaining_chars @ ''...'')"

definition post_to_twitter :: "ctx \<Rightarrow> string \<Rightarrow> effect list" where
  "post_to_twitter c msg = (if \<not> enable_twitter c then [] else [Tweet msg])"

text \<open>\<open>post_save\<close>: \<open>notify_subscribers_on_approval\<close>.\<close>

definition notify_subscribers_on_approval ::
  "ctx \<Rightarrow> int \<Rightarrow> article \<Rightarrow> bool \<Rightarrow> effect list" where
  "notify_subscribers_on_approval c now inst created =
     (if \<not> is_approved inst then []
      else if \<not> created \<and>
              (case approval_date inst of None \<Rightarrow> False | Some t \<Rightarrow> now - t > 10)
      then []
      else send_email_notifications c inst @ post_to_twitter c (build_tweet_text inst))"

text \<open>\<open>Article.save\<close> with both signal handlers around the write. \<open>updated_at\<close> is an
  \<open>auto_now\<close> field, \<open>created_at\<close> an \<open>auto_now_add\<close> field.\<close>

definition article_save ::
  "ctx \<Rightarrow> int \<Rightarrow> article option \<Rightarrow> article \<Rightarrow> article \<times> effect list" where
  "article_save c now old inst =
     (let created = (old = None);
          inst1 = set_approval_date now old inst;
          inst2 = inst1\<lparr>updated_at := now,
                       created_at := (if created then now else created_at inst1)\<rparr>
      in (inst2, notify_subscribers_on_approval c now inst2 created))"

section \<open>Article views (news_app/views.py)\<close>

datatype http_method = GET | POST | DELETE

datatype level = Info | Success | Warning | Error

datatype http_response =
    Redirect string
  | Render string
  | Http404
  | Response nat string

type_synonym flash = "level \<times> string"

text \<open>A view on an article returns the response, the flash messages, the stored row
  afterwards and the notifications sent. \<open>None\<close> as the request's user is an anonymous
  visitor, whom \<open>login_required\<close> sends to the login page.\<close>

type_synonym article_result = "http_response \<times> flash list \<times> article \<times> effect list"

definition approve_article ::
  "ctx \<Rightarrow> int \<Rightarrow> user option \<Rightarrow> http_method \<Rightarrow> article \<Rightarrow> article_result" where
  "approve_article c now ru m a =
     (case ru of
        None \<Rightarrow> (Redirect ''login'', [], a, [])
      | Some u \<Rightarrow>
          if is_rejected a
          then (Redirect ''pending_articles'',
                [(Error, ''This article was rejected and cannot be approved.'')], a, [])
          else if is_approved a
          then (Redirect ''pending_articles'',
                [(Info, ''This article is already approved.'')], a, [])
          else if m = POST
          then (let inst = a\<lparr>is_approved := True, approved_by := pk u,
                              approval_date := Some now, published_date := Some now\<rparr>;
                    (a', eff) = article_save c now (Some a) inst
                in (Redirect ''pending_articles'', [], a', eff))
          else (Render ''news_app/approve_article.html'', [], a, []))"

definition reject_article ::
  "ctx \<Rightarrow> int \<Rightarrow> user option \<Rightarrow> http_method \<Rightarrow> string option \<Rightarrow> article \<Rightarrow> article_result"
  where
  "reject_article c now ru m reason a =
     (case ru of
        None \<Rightarrow> (Redirect ''login'', [], a, [])
      | Some u \<Rightarrow>
          if m = POST
          then (let inst = a\<lparr>is_approved := False, is_rejected := True,
                              rejected_by := pk u, rejected_date := Some now,
                              rejected_reason :=
                                Some (case reason of None \<Rightarrow> [] | Some r \<Rightarrow> r)\<rparr>;
                    (a', eff) = article_save c now (Some a) inst
                in (Redirect ''pending_articles'', [(Success, ''Article rejected.'')], a', eff))
          else (Render ''news_app/reject_article.html'', [], a, []))"

definition publish_independently ::
  "ctx \<Rightarrow> int \<Rightarrow> user option \<Rightarrow> article \<Rightarrow> article_result" where
  "publish_independently c now ru a =
     (case ru of
        None \<Rightarrow> (Redirect ''login'', [], a, [])
      | Some u \<Rightarrow>
          if author a \<noteq> pk u then (Http404, [], a, [])
          else (let inst = a\<lparr>independently_published := True, is_approved := True,
                              approval_date := Some now, published_date := Some now\<rparr>;
                    (a', eff) = article_save c now (Some a) inst
                in (Render ''news_app/my_articles.html'',
                    [(Success, ''Your article has been published independently.'')], a', eff)))"

text \<open>\<open>ArticleForm\<close>: the five fields of the form after the framework has cleaned them.
  No uploaded file leaves the stored image as it is.\<close>

record article_form =
  f_title :: string
  f_content :: string
  f_publisher :: "nat option"
  f_image :: "string option"
  f_summary :: string

definition construct_instance :: "article_form \<Rightarrow> article \<Rightarrow> article" where
  "construct_instance f a =
     a\<lparr>title := f_title f, content := f_content f, publisher := f_publisher f,
       image_file := (case f_image f of None \<Rightarrow> image_file a | Some i \<Rightarrow> Some i),
       summary := f_summary f\<rparr>"

text \<open>\<open>form.is_valid()\<close>: the framework's cleaning of the submitted fields either fails
  (\<open>None\<close>) or yields the cleaned fields; the model form then fills the instance and runs
  \<open>Article.clean\<close> on it.\<close>

definition form_is_valid :: "ctx \<Rightarrow> article_form option \<Rightarrow> article \<Rightarrow> bool" where
  "form_is_valid c cleaned a =
     (case cleaned of
        None \<Rightarrow> False
      | Some f \<Rightarrow> Article_clean c (construct_instance f a) = Valid)"

definition edit_article ::
  "ctx \<Rightarrow> int \<Rightarrow> user option \<Rightarrow> http_method \<Rightarrow> article_form option \<Rightarrow> article
     \<Rightarrow> article_result" where
  "edit_article c now ru m cleaned a =
     (case ru of
        None \<Rightarrow> (Redirect ''login'', [], a, [])
      | Some u \<Rightarrow>
          if role u = Journalist \<and> author a \<noteq> pk u
          then (Redirect ''my_articles'',
                [(Error, ''You can only edit your own articles.'')], a, [])
          else if role u = Journalist \<and> is_approved a
          then (Redirect ''my_articles'',
                [(Error, ''Cannot edit approved articles. Contact an editor.'')], a, [])
          else if role u \<noteq> Journalist \<and> role u \<noteq> Editor
          then (Redirect ''home'',
                [(Error, ''You do not have permission to edit articles.'')], a, [])
          else if m = POST \<and> form_is_valid c cleaned a
          then (case cleaned of
                  None \<Rightarrow> (Render ''news_app/article_form.html'', [], a, [])
                | Some f \<Rightarrow>
                    (let article_instance = construct_instance f a;
                         inst = (if role u = Journalist \<and> is_rejected article_instance
                                 then article_instance\<lparr>is_rejected := False,
                                        rejected_reason := None, rejected_by := None,
                                        rejected_date := None\<rparr>
                                 else article_instance);
                         (a', eff) = article_save c now (Some a) inst
                     in (Redirect ''article_detail'',
                         [(Success, ''Article updated successfully!'')], a', eff)))
          else (Render ''news_app/article_form.html'', [], a, []))"

section \<open>Join requests (news_app/views.py)\<close>

text \<open>A view on a join request returns the response, the flash messages, the request
  and its publisher afterwards. \<open>pub\<close> is the row \<open>join_req.publisher\<close>.\<close>

type_synonym join_result = "http_response \<times> flash list \<times> join_request \<times> publisher"

definition approve_join_request ::
  "ctx \<Rightarrow> int \<Rightarrow> user option \<Rightarrow> join_request \<Rightarrow> publisher \<Rightarrow> join_result" where
  "approve_join_request c now ru join_req pub =
     (case ru of
        None \<Rightarrow> (Redirect ''login'', [], join_req, pub)
      | Some u \<Rightarrow>
          if pk u \<noteq> owner pub
          then (Redirect ''publisher_dashboard'',
                [(Error, ''You are not allowed to approve this request.'')], join_req, pub)
          else (let jr = join_req\<lparr>status := Approved, reviewed_by := pk u,
                                   reviewed_at := Some now\<rparr>;
                    pub' = (case user_role c (jr_user jr) of
                              Some Journalist \<Rightarrow>
                                pub\<lparr>journalists := insert (jr_user jr) (journalists pub)\<rparr>
                            | Some Editor \<Rightarrow>
                                pub\<lparr>editors := insert (jr_user jr) (editors pub)\<rparr>
                            | _ \<Rightarrow> pub);
                    uname = (case find_user c (jr_user jr) of
                               None \<Rightarrow> [] | Some ju \<Rightarrow> username ju)
                in (Redirect ''publisher_join_requests'',
                    [(Success, uname @ '' has been added to the team.'')], jr, pub')))"

text \<open>The statements after the \<open>return\<close> of \<open>reject_join_request\<close> are never run.\<close>

definition reject_join_request ::
  "ctx \<Rightarrow> int \<Rightarrow> user option \<Rightarrow> join_request \<Rightarrow> publisher \<Rightarrow> join_result" where
  "reject_join_request c now ru join_req pub =
     (case ru of
        None \<Rightarrow> (Redirect ''login'', [], join_req, pub)
      | Some u \<Rightarrow>
          if pk u \<noteq> owner pub
          then (Redirect ''publisher_dashboard'',
                [(Error, ''You are not allowed to approve this request.'')], join_req, pub)
          else (let jr = join_req\<lparr>status := Rejected, reviewed_by := pk u,
                                   reviewed_at := Some now\<rparr>;
                    uname = (case find_user c (jr_user jr) of
                               None \<Rightarrow> [] | Some ju \<Rightarrow> username ju)
                in (Redirect ''publisher_join_requests'',
                    [(Success, ''Join request from '' @ uname @ '' has been rejected.'')],
                    jr, pub)))"

section \<open>Subscriptions (news_app/views.py)\<close>

text \<open>The API views run behind \<open>IsAuthenticated\<close>, so the request has a user. A
  \<open>Response\<close> is its status code with the text under \<open>message\<close> or \<open>error\<close>.\<close>

definition find_publisher :: "publisher list \<Rightarrow> nat \<Rightarrow> publisher option" where
  "find_publisher ps i = find (\<lambda>p. p_id p = i) ps"

definition find_journalist :: "ctx \<Rightarrow> nat \<Rightarrow> user option" where
  "find_journalist c i = find (\<lambda>u. pk u = Some i \<and> role u = Journalist) (users c)"

definition subscribe_to_publisher ::
  "publisher list \<Rightarrow> user \<Rightarrow> nat \<Rightarrow> http_response \<times> user" where
  "subscribe_to_publisher ps u publisher_id =
     (if role u \<noteq> Reader
      then (Response 403 ''Only readers can subscribe to publishers'', u)
      else (case find_publisher ps publisher_id of
              None \<Rightarrow> (Http404, u)
            | Some p \<Rightarrow>
                if p_id p \<in> subscribed_publishers u
                then (Response 200 (''Already subscribed to '' @ p_name p), u)
                else (Response 201 (''Successfully subscribed to '' @ p_name p),
                      u\<lparr>subscribed_publishers := insert (p_id p) (subscribed_publishers u)\<rparr>)))"

definition unsubscribe_from_publisher ::
  "publisher list \<Rightarrow> user \<Rightarrow> nat \<Rightarrow> http_response \<times> user" where
  "unsubscribe_from_publisher ps u publisher_id =
     (if role u \<noteq> Reader
      then (Response 403 ''Only readers can manage subscriptions'', u)
      else (case find_publisher ps publisher_id of
              None \<Rightarrow> (Http404, u)
            | Some p \<Rightarrow>
                if p_id p \<notin> subscribed_publishers u
                then (Response 200 (''Not subscribed to '' @ p_name p), u)
                else (Response 200 (''Successfully unsubscribed from '' @ p_name p),
                      u\<lparr>subscribed_publishers := subscribed_publishers u - {p_id p}\<rparr>)))"

definition subscribe_to_journalist ::
  "ctx \<Rightarrow> user \<Rightarrow> nat \<Rightarrow> http_response \<times> user" where
  "subscribe_to_journalist c u journalist_id =
     (if role u \<noteq> Reader
      then (Response 403 ''Only readers can subscribe to journalists'', u)
      else (case find_journalist c journalist_id of
              None \<Rightarrow> (Http404, u)
            | Some j \<Rightarrow>
                if journalist_id \<in> subscribed_journalists u
                then (Response 200 (''Already subscribed to '' @ username j), u)
                else (Response 201 (''Successfully subscribed to '' @ username j),
                      u\<lparr>subscribed_journalists :=
                          insert journalist_id (subscribed_journalists u)\<rparr>)))"

definition unsubscribe_from_journalist ::
  "ctx \<Rightarrow> user \<Rightarrow> nat \<Rightarrow> http_response \<times> user" where
  "unsubscribe_from_journalist c u journalist_id =
     (if role u \<noteq> Reader
      then (Response 403 ''Only readers can manage subscriptions'', u)
      else (case find_journalist c journalist_id of
              None \<Rightarrow> (Http404, u)
            | Some j \<Rightarrow>
                if journalist_id \<notin> subscribed_journalists u
                then (Response 200 (''Not subscribed to '' @ username j), u)
                else (Response 200 (''Successfully unsubscribed from '' @ username j),
                      u\<lparr>subscribed_journalists := subscribed_journalists u - {journalist_id}\<rparr>)))"

subsection \<open>SubscriptionArticlesView.get_queryset\<close>

text \<open>The queryset over the article table: the filter, \<open>distinct()\<close>, and
  \<open>order_by("-published_date")\<close>. The source leaves two things to the database, which
  the model fixes as SQLite does: rows with equal dates keep the order of the table,
  and a NULL date sorts below every date, so last.\<close>

definition in_subscriptions :: "user \<Rightarrow> article \<Rightarrow> bool" where
  "in_subscriptions u a =
     ((case publisher a of None \<Rightarrow> False | Some p \<Rightarrow> p \<in> subscribed_publishers u)
      \<or> (case author a of None \<Rightarrow> False | Some j \<Rightarrow> j \<in> subscribed_journalists u))"

definition order_by_published_desc :: "article list \<Rightarrow> article list" where
  "order_by_published_desc xs = rev (sort_key published_date (rev xs))"

definition subscription_articles :: "article list \<Rightarrow> user \<Rightarrow> article list" where
  "subscription_articles articles u =
     (if role u \<noteq> Reader then []
      else order_by_published_desc
             (remdups (filter (\<lambda>a. in_subscriptions u a \<and> is_approved a) articles)))"

section \<open>CustomUser.save and CustomUser.clean (news_app/models.py)\<close>

text \<open>\<open>CustomUser.save\<close> on the instance in memory: the result is that instance with its
  relations afterwards, \<open>None\<close> when the call raises. \<open>fresh\<close> is the key the database
  gives a new row. \<open>update_fields\<close> is the keyword argument of that name, a list of
  column names, \<open>None\<close> when it is absent; when it is given, only the named columns of
  the row are written, and the instance without a key cannot be saved: the framework
  raises \<open>ValueError\<close>, in \<open>save\<close> for a list with names and at the first use of a
  relation for the empty list.\<close>

definition CustomUser_save :: "nat \<Rightarrow> string list option \<Rightarrow> user \<Rightarrow> user option" where
  "CustomUser_save fresh update_fields u =
     (let is_new = (pk u = None)
      in if is_new \<and> update_fields \<noteq> None then None
         else (let u1 = (if is_new then u\<lparr>pk := Some fresh\<rparr> else u);
                   u2 = (if role u1 = Journalist
                         then u1\<lparr>subscribed_newsletters := {}, subscribed_journalists := {},
                                 subscribed_publishers := {}\<rparr>
                         else u1)
               in if is_new
                     \<or> ''role'' \<in> set (case update_fields of None \<Rightarrow> [] | Some fs \<Rightarrow> fs)
                  then Some (u2\<lparr>groups := {get_role_display (role u2)}\<rparr>)
                  else Some u2))"

definition CustomUser_clean :: "user \<Rightarrow> validation" where
  "CustomUser_clean u =
     (if (case pk u of None \<Rightarrow> True | Some i \<Rightarrow> i = 0) then Valid
      else if role u = Journalist \<and>
              (subscribed_newsletters u \<noteq> {} \<or> subscribed_journalists u \<noteq> {})
      then ValidationError ''Journalists cannot have reader subscriptions.''
      else Valid)"

section \<open>Example rows\<close>

definition ex_reader :: user where
  "ex_reader = \<lparr>pk = Some 1, username = ''rita'', full_name = ''Rita Reader'',
     email = ''rita@example.org'', role = Reader, subscribed_newsletters = {},
     subscribed_publishers = {7}, subscribed_journalists = {}, groups = {''Reader''}\<rparr>"

definition ex_reader2 :: user where
  "ex_reader2 = \<lparr>pk = Some 4, username = ''ross'', full_name = [],
     email = [], role = Reader, subscribed_newsletters = {},
     subscribed_publishers = {7}, subscribed_journalists = {3}, groups = {''Reader''}\<rparr>"

definition ex_editor :: user where
  "ex_editor = \<lparr>pk = Some 2, username = ''ed'', full_name = ''Ed Itor'',
     email = ''ed@example.org'', role = Editor, subscribed_newsletters = {},
     subscribed_publishers = {}, subscribed_journalists = {}, groups = {''Editor''}\<rparr>"

definition ex_journalist :: user where
  "ex_journalist = \<lparr>pk = Some 3, username = ''jo'', full_name = [],
     email = ''jo@example.org'', role = Journalist, subscribed_newsletters = {},
     subscribed_publishers = {}, subscribed_journalists = {}, groups = {''Journalist''}\<rparr>"

definition ex_owner :: user where
  "ex_owner = \<lparr>pk = Some 5, username = ''olga'', full_name = [],
     email = ''olga@example.org'', role = Publisher_role, subscribed_newsletters = {},
     subscribed_publishers = {}, subscribed_journalists = {}, groups = {''Publisher''}\<rparr>"

definition ex_ctx :: ctx where
  "ex_ctx = \<lparr>users = [ex_reader, ex_editor, ex_journalist, ex_reader2, ex_owner],
     publisher_name = (\<lambda>_. ''Daily Planet''),
     default_from_email = ''news@example.org'', enable_twitter = False\<rparr>"

definition ex_publisher :: publisher where
  "ex_publisher = \<lparr>p_id = 7, p_name = ''Daily Planet'', description = [], website = [],
     owner = Some 5, created_by = Some 5, editors = {2}, journalists = {}\<rparr>"

definition ex_pending :: article where
  "ex_pending = \<lparr>aid = 10, title = ''Budget'', content = ''The budget passed.'',
     summary = ''Budget news'', author = Some 3, publisher = Some 7,
     independently_published = False, is_approved = False, approved_by = None,
     is_rejected = False, rejected_reason = None, rejected_by = None,
     approval_date = None, rejected_date = None, created_at = 50, updated_at = 50,
     published_date = None, image_file = None\<rparr>"

definition ex_approved :: article where
  "ex_approved = ex_pending\<lparr>is_approved := True, approved_by := Some 2,
     approval_date := Some 60, published_date := Some 60, updated_at := 60\<rparr>"

definition ex_rejected :: article where
  "ex_rejected = ex_pending\<lparr>is_rejected := True, rejected_by := Some 2,
     rejected_reason := Some ''too thin'', rejected_date := Some 60, updated_at := 60\<rparr>"

definition ex_form :: article_form where
  "ex_form = \<lparr>f_title = ''Budget, revised'', f_content = ''The budget passed narrowly.'',
     f_publisher = Some 7, f_image = None, f_summary = ''Budget news''\<rparr>"

definition ex_join_request :: join_request where
  "ex_join_request = \<lparr>jr_user = 3, jr_publisher = 7, status = Rejected, message = ''hello'',
     jr_created_at = 40, reviewed_at = Some 45, reviewed_by = Some 5\<rparr>"

definition ex_both :: article where
  "ex_both = ex_pending\<lparr>independently_published := True, is_approved := True,
     is_rejected := True, rejected_reason := Some ''too thin'', rejected_by := Some 2,
     approval_date := Some 110, rejected_date := Some 100, updated_at := 110,
     published_date := Some 110\<rparr>"

definition ex_indep :: article where
  "ex_indep = ex_pending\<lparr>aid := 11, title := ''Harbour'', publisher := None,
     independently_published := True, is_approved := True, approval_date := Some 80,
     published_date := Some 80, updated_at := 80\<rparr>"

definition ex_articles :: "article list" where
  "ex_articles = [ex_pending\<lparr>aid := 12\<rparr>, ex_approved, ex_indep]"

section \<open>Projections of a view's result\<close>

definition result_article :: "article_result \<Rightarrow> article" where
  "result_article r = fst (snd (snd r))"

definition result_flashes :: "article_result \<Rightarrow> flash list" where
  "result_flashes r = fst (snd r)"

definition join_request_of :: "join_result \<Rightarrow> join_request" where
  "join_request_of r = fst (snd (snd r))"

definition publisher_of :: "join_result \<Rightarrow> publisher" where
  "publisher_of r = snd (snd (snd r))"

section \<open>Saving an article: what the signals leave alone\<close>

lemma article_save_not_approved:
  "\<not> is_approved inst \<Longrightarrow>
   article_save c now (Some prev) inst = (inst\<lparr>updated_at := now\<rparr>, [])"
  by (simp add: article_save_def set_approval_date_def notify_subscribers_on_approval_def
        Let_def)

lemma article_save_flags:
  "is_approved (fst (article_save c now old inst)) = is_approved inst"
  "is_rejected (fst (article_save c now old inst)) = is_rejected inst"
  "rejected_reason (fst (article_save c now old inst)) = rejected_reason inst"
  "rejected_by (fst (article_save c now old inst)) = rejected_by inst"
  "rejected_date (fst (article_save c now old inst)) = rejected_date inst"
  "approved_by (fst (article_save c now old inst)) = approved_by inst"
  "author (fst (article_save c now old inst)) = author inst"
  by (simp_all add: article_save_def set_approval_date_def Let_def split: option.splits)

lemma construct_instance_flags:
  "is_approved (construct_instance f a) = is_approved a"
  "is_rejected (construct_instance f a) = is_rejected a"
  "rejected_reason (construct_instance f a) = rejected_reason a"
  "rejected_by (construct_instance f a) = rejected_by a"
  "rejected_date (construct_instance f a) = rejected_date a"
  by (simp_all add: construct_instance_def)

section \<open>Approval and rejection are mutually exclusive\<close>

text \<open>Three of the four operations keep \<open>is_approved\<close> and \<open>is_rejected\<close> from being set
  together.\<close>

lemma approve_article_exclusive:
  "\<not> (is_approved a \<and> is_rejected a) \<Longrightarrow>
   \<not> (is_approved (result_article (approve_article c now ru m a))
      \<and> is_rejected (result_article (approve_article c now ru m a)))"
  by (simp add: approve_article_def result_article_def Let_def split_def article_save_flags
        split: option.splits)

lemma reject_article_exclusive:
  "\<not> (is_approved a \<and> is_rejected a) \<Longrightarrow>
   \<not> (is_approved (result_article (reject_article c now ru m reason a))
      \<and> is_rejected (result_article (reject_article c now ru m reason a)))"
  by (simp add: reject_article_def result_article_def Let_def split_def article_save_flags
        split: option.splits)

lemma edit_article_exclusive:
  "\<not> (is_approved a \<and> is_rejected a) \<Longrightarrow>
   \<not> (is_approved (result_article (edit_article c now ru m cleaned a))
      \<and> is_rejected (result_article (edit_article c now ru m cleaned a)))"
  by (auto simp add: edit_article_def result_article_def Let_def split_def article_save_flags
        construct_instance_flags split: option.splits)

text \<open>\<open>publish_independently\<close> sets \<open>is_approved\<close> and leaves \<open>is_rejected\<close> as it finds
  it.\<close>

lemma publish_independently_keeps_rejected:
  assumes "author a = pk u"
  shows "is_approved (result_article (publish_independently c now (Some u) a))"
    and "is_rejected (result_article (publish_independently c now (Some u) a)) = is_rejected a"
  using assms
  by (simp_all add: publish_independently_def result_article_def Let_def split_def
        article_save_flags)

lemma ex_both_reached:
  "result_article (publish_independently ex_ctx 110 (Some ex_journalist)
     (result_article (reject_article ex_ctx 100 (Some ex_editor) POST (Some ''too thin'')
        ex_pending))) = ex_both"
  by (simp add: publish_independently_def reject_article_def result_article_def Let_def
        split_def article_save_def set_approval_date_def ex_journalist_def ex_editor_def
        ex_pending_def ex_both_def)

text \<open>
  C1. Whatever sequence of \<open>approve_article\<close>, \<open>reject_article\<close>,
  \<open>publish_independently\<close> and \<open>edit_article\<close> is applied to an article, \<open>is_approved\<close>
  and \<open>is_rejected\<close> are never both true afterwards. The code breaks this: a pending
  article that an editor rejects and that its author then publishes independently
  carries both flags.
\<close>

theorem C1_publish_after_reject:
  "\<not> (is_approved ex_pending \<and> is_rejected ex_pending)
   \<and> is_approved (result_article (publish_independently ex_ctx 110 (Some ex_journalist)
        (result_article (reject_article ex_ctx 100 (Some ex_editor) POST (Some ''too thin'')
           ex_pending))))
   \<and> is_rejected (result_article (publish_independently ex_ctx 110 (Some ex_journalist)
        (result_article (reject_article ex_ctx 100 (Some ex_editor) POST (Some ''too thin'')
           ex_pending))))"
  by (simp add: publish_independently_def reject_article_def result_article_def Let_def
        split_def article_save_flags ex_journalist_def ex_pending_def)

section \<open>Who may approve\<close>

text \<open>\<open>approve_article\<close> never looks at the role of the user: any logged-in user who posts
  to it approves a pending article and is recorded as its approver.\<close>

lemma approve_article_any_role:
  assumes "\<not> is_rejected a" "\<not> is_approved a"
  shows "is_approved (result_article (approve_article c now (Some u) POST a))"
    and "approved_by (result_article (approve_article c now (Some u) POST a)) = pk u"
  using assms
  by (simp_all add: approve_article_def result_article_def Let_def split_def article_save_flags)

text \<open>
  C2. The approve operation is permitted exactly when the user is an editor and the
  article is neither approved nor rejected; a user who is not an editor is denied and
  the article stays as it is. The code breaks this: a reader who posts to
  \<open>approve_article\<close> approves the pending article.
\<close>

theorem C2_reader_approves:
  "role ex_reader = Reader
   \<and> \<not> is_approved ex_pending \<and> \<not> is_rejected ex_pending
   \<and> is_approved (result_article (approve_article ex_ctx 100 (Some ex_reader) POST ex_pending))
   \<and> approved_by (result_article (approve_article ex_ctx 100 (Some ex_reader) POST ex_pending))
       = Some 1"
  by (simp add: approve_article_def result_article_def Let_def split_def article_save_flags
        ex_reader_def ex_pending_def)

section \<open>Rejecting an article\<close>

text \<open>
  C3, as the code has it. A POST to \<open>reject_article\<close> sets \<open>is_rejected\<close>, clears
  \<open>is_approved\<close>, and sets the rejecter to the acting user, the rejection timestamp to
  the current time and the rejection reason to the submitted reason, the empty string
  when none is submitted. No other field changes but the \<open>updated_at\<close> stamp of the
  save, and no notification is sent.
\<close>

theorem C3_reject_article_effects:
  "reject_article c now (Some u) POST reason a =
     (Redirect ''pending_articles'', [(Success, ''Article rejected.'')],
      a\<lparr>is_approved := False, is_rejected := True, rejected_by := pk u,
        rejected_date := Some now,
        rejected_reason := Some (case reason of None \<Rightarrow> [] | Some r \<Rightarrow> r),
        updated_at := now\<rparr>, [])"
  by (simp add: reject_article_def article_save_not_approved Let_def)

text \<open>The amended C3 at an approved article, rejected without a reason.\<close>

theorem C3_reject_article_effects_witness:
  "reject_article ex_ctx 100 (Some ex_editor) POST None ex_approved =
     (Redirect ''pending_articles'', [(Success, ''Article rejected.'')],
      ex_approved\<lparr>is_approved := False, is_rejected := True, rejected_by := Some 2,
        rejected_date := Some 100, rejected_reason := Some [], updated_at := 100\<rparr>, [])"
  using C3_reject_article_effects [of ex_ctx 100 ex_editor None ex_approved]
  by (simp add: ex_editor_def)

text \<open>
  C3 as stated fails: rejecting needs no reason, and rejecting an approved article
  changes \<open>is_approved\<close> (and \<open>is_rejected\<close>), which the claim says are left alone.
\<close>

theorem C3_counterexample:
  "is_approved ex_approved
   \<and> \<not> is_approved (result_article
          (reject_article ex_ctx 100 (Some ex_editor) POST None ex_approved))
   \<and> \<not> is_rejected ex_approved
   \<and> is_rejected (result_article
          (reject_article ex_ctx 100 (Some ex_editor) POST None ex_approved))
   \<and> result_flashes (reject_article ex_ctx 100 (Some ex_editor) POST None ex_approved)
       = [(Success, ''Article rejected.'')]"
  by (simp add: reject_article_def article_save_not_approved Let_def result_article_def
        result_flashes_def ex_approved_def ex_pending_def)

section \<open>Approving again\<close>

text \<open>\<open>approve_article\<close> tests \<open>is_rejected\<close> before \<open>is_approved\<close>: a rejected article is
  refused whatever else holds of it, as \<open>article_status\<close> reads it as rejected.\<close>

lemma approve_article_rejected:
  "is_rejected a \<Longrightarrow>
   approve_article c now (Some u) m a =
     (Redirect ''pending_articles'',
      [(Error, ''This article was rejected and cannot be approved.'')], a, [])"
  by (simp add: approve_article_def)

lemma approve_article_already_approved:
  "is_approved a \<Longrightarrow> \<not> is_rejected a \<Longrightarrow>
   approve_article c now (Some u) m a =
     (Redirect ''pending_articles'',
      [(Info, ''This article is already approved.'')], a, [])"
  by (simp add: approve_article_def)

text \<open>
  C4. For an article of the data model, whose flags \<open>is_approved\<close> and \<open>is_rejected\<close> are
  not both set: when it is already approved, the approve operation reports "already
  approved", changes no field and sends no notification; when it is rejected, the
  approve operation is refused with an error message and the article is unchanged.
\<close>

theorem C4_approve_reentry:
  assumes "\<not> (is_approved a \<and> is_rejected a)"
  shows "(is_approved a \<longrightarrow>
            approve_article c now (Some u) m a =
              (Redirect ''pending_articles'',
               [(Info, ''This article is already approved.'')], a, []))
       \<and> (is_rejected a \<longrightarrow>
            approve_article c now (Some u) m a =
              (Redirect ''pending_articles'',
               [(Error, ''This article was rejected and cannot be approved.'')], a, []))"
  using assms
  by (auto simp add: approve_article_rejected approve_article_already_approved)

text \<open>C4 at an approved and at a rejected article.\<close>

theorem C4_approve_reentry_witness:
  "\<not> (is_approved ex_approved \<and> is_rejected ex_approved)
   \<and> is_approved ex_approved
   \<and> approve_article ex_ctx 100 (Some ex_editor) POST ex_approved =
        (Redirect ''pending_articles'',
         [(Info, ''This article is already approved.'')], ex_approved, [])
   \<and> \<not> (is_approved ex_rejected \<and> is_rejected ex_rejected)
   \<and> is_rejected ex_rejected
   \<and> approve_article ex_ctx 100 (Some ex_editor) POST ex_rejected =
        (Redirect ''pending_articles'',
         [(Error, ''This article was rejected and cannot be approved.'')], ex_rejected, [])"
proof -
  have na: "\<not> (is_approved ex_approved \<and> is_rejected ex_approved)"
    by (simp add: ex_approved_def ex_pending_def)
  have nr: "\<not> (is_approved ex_rejected \<and> is_rejected ex_rejected)"
    by (simp add: ex_rejected_def ex_pending_def)
  have a: "is_approved ex_approved"
    by (simp add: ex_approved_def)
  have r: "is_rejected ex_rejected"
    by (simp add: ex_rejected_def)
  show ?thesis
    using na nr a r
      C4_approve_reentry [OF na, of ex_ctx 100 ex_editor POST]
      C4_approve_reentry [OF nr, of ex_ctx 100 ex_editor POST]
    by simp
qed

section \<open>Journalists hold no subscriptions\<close>

text \<open>After \<open>CustomUser.save\<close> a journalist has none of the three subscriptions.\<close>

lemma CustomUser_save_journalist:
  assumes "role u = Journalist" and "CustomUser_save fresh update_fields u = Some u'"
  shows "subscribed_publishers u' = {}"
    and "subscribed_newsletters u' = {}"
    and "subscribed_journalists u' = {}"
  using assms by (auto simp add: CustomUser_save_def Let_def split: if_splits)

text \<open>A plain save, without \<open>update_fields\<close>, always goes through.\<close>

lemma CustomUser_save_plain: "\<exists>u'. CustomUser_save fresh None u = Some u'"
  by (simp add: CustomUser_save_def Let_def)

text \<open>
  C7. After a save a journalist holds no subscription, and \<open>clean\<close> rejects a journalist
  that holds any of the three. The code breaks the second half: \<open>clean\<close> looks at the
  newsletters and the journalists only, and accepts a saved journalist subscribed to a
  publisher.
\<close>

theorem C7_clean_accepts_publisher_subscription:
  assumes "role u = Journalist"
    and "subscribed_newsletters u = {}" and "subscribed_journalists u = {}"
  shows "CustomUser_clean u = Valid"
  using assms by (simp add: CustomUser_clean_def)

text \<open>The failing input of C7: journalist 3, saved, subscribed to publisher 7 only.\<close>

theorem C7_clean_accepts_publisher_subscription_witness:
  "role (ex_journalist\<lparr>subscribed_publishers := {7}\<rparr>) = Journalist
   \<and> pk (ex_journalist\<lparr>subscribed_publishers := {7}\<rparr>) = Some 3
   \<and> subscribed_publishers (ex_journalist\<lparr>subscribed_publishers := {7}\<rparr>) = {7}
   \<and> CustomUser_clean (ex_journalist\<lparr>subscribed_publishers := {7}\<rparr>) = Valid"
  using C7_clean_accepts_publisher_subscription
          [of "ex_journalist\<lparr>subscribed_publishers := {7}\<rparr>"]
  by (simp add: ex_journalist_def)

section \<open>Reviewing a join request\<close>

text \<open>
  C5, as the code has it. An approve or reject by anyone but the owner of the publisher
  changes neither the request nor the publisher. An approve or reject by the owner is
  carried out whatever the status of the request is: approve sets the status to
  approved, stamps the reviewer and the time and adds the requester to the membership
  set of the requester's role; reject sets the status to rejected and stamps the
  reviewer and the time, and leaves the publisher as it is.
\<close>

theorem C5_review_from_any_status:
  "(pk u \<noteq> owner pub \<longrightarrow>
      join_request_of (approve_join_request c now (Some u) jr pub) = jr
      \<and> publisher_of (approve_join_request c now (Some u) jr pub) = pub
      \<and> join_request_of (reject_join_request c now (Some u) jr pub) = jr
      \<and> publisher_of (reject_join_request c now (Some u) jr pub) = pub)
   \<and> (pk u = owner pub \<longrightarrow>
      join_request_of (approve_join_request c now (Some u) jr pub)
        = jr\<lparr>status := Approved, reviewed_by := pk u, reviewed_at := Some now\<rparr>
      \<and> publisher_of (approve_join_request c now (Some u) jr pub)
        = (if user_role c (jr_user jr) = Some Journalist
           then pub\<lparr>journalists := insert (jr_user jr) (journalists pub)\<rparr>
           else if user_role c (jr_user jr) = Some Editor
           then pub\<lparr>editors := insert (jr_user jr) (editors pub)\<rparr>
           else pub)
      \<and> join_request_of (reject_join_request c now (Some u) jr pub)
        = jr\<lparr>status := Rejected, reviewed_by := pk u, reviewed_at := Some now\<rparr>
      \<and> publisher_of (reject_join_request c now (Some u) jr pub) = pub)"
  by (auto simp add: approve_join_request_def reject_join_request_def join_request_of_def
        publisher_of_def Let_def split: option.splits role.splits)

text \<open>The amended C5 at a rejected request, reviewed by the owner and by an editor.\<close>

theorem C5_review_from_any_status_witness:
  "pk ex_owner = owner ex_publisher \<and> pk ex_editor \<noteq> owner ex_publisher
   \<and> join_request_of (approve_join_request ex_ctx 100 (Some ex_owner) ex_join_request ex_publisher)
        = ex_join_request\<lparr>status := Approved, reviewed_by := Some 5, reviewed_at := Some 100\<rparr>
   \<and> join_request_of (approve_join_request ex_ctx 100 (Some ex_editor) ex_join_request ex_publisher)
        = ex_join_request"
  using C5_review_from_any_status [of ex_owner ex_publisher ex_ctx 100 ex_join_request]
        C5_review_from_any_status [of ex_editor ex_publisher ex_ctx 100 ex_join_request]
  by (simp add: ex_owner_def ex_editor_def ex_publisher_def)

text \<open>
  C5 as stated fails: a request that was rejected is approved by the owner afterwards;
  its status, its review time and the journalists of the publisher all change.
\<close>

theorem C5_counterexample:
  "status ex_join_request = Rejected
   \<and> pk ex_owner = owner ex_publisher
   \<and> status (join_request_of (approve_join_request ex_ctx 100 (Some ex_owner)
        ex_join_request ex_publisher)) = Approved
   \<and> reviewed_at (join_request_of (approve_join_request ex_ctx 100 (Some ex_owner)
        ex_join_request ex_publisher)) \<noteq> reviewed_at ex_join_request
   \<and> journalists (publisher_of (approve_join_request ex_ctx 100 (Some ex_owner)
        ex_join_request ex_publisher)) \<noteq> journalists ex_publisher"
  by (simp add: approve_join_request_def join_request_of_def publisher_of_def Let_def
        user_role_def find_user_def ex_ctx_def ex_reader_def ex_editor_def ex_journalist_def
        ex_join_request_def ex_owner_def ex_publisher_def)

section \<open>The subscription feed\<close>

lemma set_order_by_published_desc: "set (order_by_published_desc xs) = set xs"
  by (simp add: order_by_published_desc_def)

lemma distinct_order_by_published_desc:
  "distinct (order_by_published_desc xs) = distinct xs"
  by (simp add: order_by_published_desc_def)

lemma sorted_order_by_published_desc:
  "sorted_wrt (\<lambda>a b. published_date b \<le> published_date a) (order_by_published_desc xs)"
proof -
  have "sorted (map published_date (sort_key published_date (rev xs)))"
    by (rule sorted_sort_key)
  then have "sorted_wrt (\<lambda>a b. published_date a \<le> published_date b)
               (sort_key published_date (rev xs))"
    by (simp add: sorted_map)
  then show ?thesis
    by (simp add: order_by_published_desc_def sorted_wrt_rev)
qed

text \<open>
  C6. For a reader the subscription feed holds exactly the approved articles whose
  publisher is among the reader's subscribed publishers together with the approved
  articles whose author is among the reader's subscribed journalists, each once, in
  descending order of \<open>published_date\<close>; for any other role the feed is empty.
\<close>

theorem C6_subscription_feed:
  "(role u = Reader \<longrightarrow>
      set (subscription_articles arts u)
        = {a \<in> set arts. is_approved a
             \<and> (\<exists>p. publisher a = Some p \<and> p \<in> subscribed_publishers u)}
          \<union> {a \<in> set arts. is_approved a
               \<and> (\<exists>j. author a = Some j \<and> j \<in> subscribed_journalists u)}
      \<and> distinct (subscription_articles arts u)
      \<and> sorted_wrt (\<lambda>a b. published_date b \<le> published_date a)
          (subscription_articles arts u))
   \<and> (role u \<noteq> Reader \<longrightarrow> subscription_articles arts u = [])"
proof (intro conjI impI)
  assume r: "role u = Reader"
  show "set (subscription_articles arts u)
        = {a \<in> set arts. is_approved a
             \<and> (\<exists>p. publisher a = Some p \<and> p \<in> subscribed_publishers u)}
          \<union> {a \<in> set arts. is_approved a
               \<and> (\<exists>j. author a = Some j \<and> j \<in> subscribed_journalists u)}"
    using r
    by (auto simp add: subscription_articles_def set_order_by_published_desc
          in_subscriptions_def split: option.splits)
  show "distinct (subscription_articles arts u)"
    using r by (simp add: subscription_articles_def distinct_order_by_published_desc)
  show "sorted_wrt (\<lambda>a b. published_date b \<le> published_date a)
          (subscription_articles arts u)"
    using r by (simp add: subscription_articles_def sorted_order_by_published_desc)
next
  assume "role u \<noteq> Reader"
  then show "subscription_articles arts u = []"
    by (simp add: subscription_articles_def)
qed

text \<open>C6 at a table of three articles, for a reader and for an editor.\<close>

theorem C6_subscription_feed_witness:
  "role ex_reader2 = Reader
   \<and> subscription_articles ex_articles ex_reader2 = [ex_indep, ex_approved]
   \<and> role ex_editor \<noteq> Reader
   \<and> subscription_articles ex_articles ex_editor = []"
  using C6_subscription_feed [of ex_reader2 ex_articles]
        C6_subscription_feed [of ex_editor ex_articles]
  by (simp add: subscription_articles_def order_by_published_desc_def in_subscriptions_def
        ex_articles_def ex_indep_def ex_approved_def ex_pending_def ex_reader2_def ex_editor_def)

section \<open>Subscribing twice, unsubscribing when not subscribed\<close>

lemma find_publisher_id: "find_publisher ps i = Some p \<Longrightarrow> p_id p = i"
  by (auto simp add: find_publisher_def find_Some_iff)

text \<open>
  C8. For a reader already subscribed to a publisher or a journalist, subscribing again
  reports "already subscribed" and leaves the reader's subscriptions unchanged, so the
  second of two subscribe calls changes nothing; for a reader who is not subscribed,
  unsubscribing reports "not subscribed" and leaves the subscriptions unchanged.
\<close>

theorem C8_subscription_idempotent:
  assumes "role u = Reader"
  shows "(find_publisher ps i = Some p \<and> i \<in> subscribed_publishers u \<longrightarrow>
            subscribe_to_publisher ps u i
              = (Response 200 (''Already subscribed to '' @ p_name p), u))
       \<and> (find_publisher ps i = Some p \<longrightarrow>
            subscribe_to_publisher ps (snd (subscribe_to_publisher ps u i)) i
              = (Response 200 (''Already subscribed to '' @ p_name p),
                 snd (subscribe_to_publisher ps u i)))
       \<and> (find_publisher ps i = Some p \<and> i \<notin> subscribed_publishers u \<longrightarrow>
            unsubscribe_from_publisher ps u i
              = (Response 200 (''Not subscribed to '' @ p_name p), u))
       \<and> (find_journalist c k = Some j \<and> k \<in> subscribed_journalists u \<longrightarrow>
            subscribe_to_journalist c u k
              = (Response 200 (''Already subscribed to '' @ username j), u))
       \<and> (find_journalist c k = Some j \<longrightarrow>
            subscribe_to_journalist c (snd (subscribe_to_journalist c u k)) k
              = (Response 200 (''Already subscribed to '' @ username j),
                 snd (subscribe_to_journalist c u k)))
       \<and> (find_journalist c k = Some j \<and> k \<notin> subscribed_journalists u \<longrightarrow>
            unsubscribe_from_journalist c u k
              = (Response 200 (''Not subscribed to '' @ username j), u))"
proof (intro conjI impI)
  assume f: "find_publisher ps i = Some p"
  then have "p_id p = i"
    by (rule find_publisher_id)
  with f assms
  show "subscribe_to_publisher ps (snd (subscribe_to_publisher ps u i)) i
          = (Response 200 (''Already subscribed to '' @ p_name p),
             snd (subscribe_to_publisher ps u i))"
    by (simp add: subscribe_to_publisher_def)
next
  assume "find_journalist c k = Some j"
  with assms
  show "subscribe_to_journalist c (snd (subscribe_to_journalist c u k)) k
          = (Response 200 (''Already subscribed to '' @ username j),
             snd (subscribe_to_journalist c u k))"
    by (simp add: subscribe_to_journalist_def)
qed (use assms in \<open>auto simp add: subscribe_to_publisher_def unsubscribe_from_publisher_def
        subscribe_to_journalist_def unsubscribe_from_journalist_def
        dest: find_publisher_id\<close>)

text \<open>C8 at a reader subscribed to publisher 7 and to no journalist: subscribing to the
  publisher again and unsubscribing from journalist 3 change nothing, and of two
  subscribe calls for journalist 3 the second leaves the one subscription in place.\<close>

theorem C8_subscription_idempotent_witness:
  "role ex_reader = Reader
   \<and> find_publisher [ex_publisher] 7 = Some ex_publisher
   \<and> 7 \<in> subscribed_publishers ex_reader
   \<and> subscribe_to_publisher [ex_publisher] ex_reader 7
       = (Response 200 ''Already subscribed to Daily Planet'', ex_reader)
   \<and> find_journalist ex_ctx 3 = Some ex_journalist
   \<and> 3 \<notin> subscribed_journalists ex_reader
   \<and> unsubscribe_from_journalist ex_ctx ex_reader 3
       = (Response 200 ''Not subscribed to jo'', ex_reader)
   \<and> subscribe_to_journalist ex_ctx (snd (subscribe_to_journalist ex_ctx ex_reader 3)) 3
       = (Response 200 ''Already subscribed to jo'',
          ex_reader\<lparr>subscribed_journalists := {3}\<rparr>)"
proof -
  have r: "role ex_reader = Reader"
    by (simp add: ex_reader_def)
  have p: "find_publisher [ex_publisher] 7 = Some ex_publisher"
    by (simp add: find_publisher_def ex_publisher_def)
  have j: "find_journalist ex_ctx 3 = Some ex_journalist"
    by (simp add: find_journalist_def ex_ctx_def ex_reader_def ex_editor_def ex_journalist_def)
  have s: "snd (subscribe_to_journalist ex_ctx ex_reader 3)
           = ex_reader\<lparr>subscribed_journalists := {3}\<rparr>"
    by (simp add: subscribe_to_journalist_def j) (simp add: ex_reader_def)
  show ?thesis
    using r p j
      C8_subscription_idempotent [OF r, of "[ex_publisher]" 7 ex_publisher ex_ctx 3 ex_journalist]
    by (simp add: s) (simp add: ex_reader_def ex_publisher_def ex_journalist_def)
qed

section \<open>Recipients of the approval notification\<close>

lemma set_subscribers:
  "set (subscribers c a)
     = {u \<in> set (users c).
          ((\<exists>p. publisher a = Some p \<and> p \<in> subscribed_publishers u)
           \<or> (\<exists>j. author a = Some j \<and> j \<in> subscribed_journalists u))
          \<and> pk u \<noteq> author a}"
  by (auto simp add: subscribers_def publisher_subscribers_def journalist_subscribers_def
        split: option.splits)

lemma distinct_subscribers: "distinct (subscribers c a)"
  by (simp add: subscribers_def)

lemma length_prepared_emails:
  "length (prepared_emails c a) = card {u \<in> set (subscribers c a). email u \<noteq> []}"
proof -
  have "card (set (filter (\<lambda>u. email u \<noteq> []) (subscribers c a)))
        = length (filter (\<lambda>u. email u \<noteq> []) (subscribers c a))"
    by (rule distinct_card) (simp add: distinct_subscribers)
  then show ?thesis
    by (simp add: prepared_emails_def)
qed

text \<open>
  C9. The recipients of the notification for an article are the users subscribed to
  its publisher, when it has one, together with the users subscribed to its author,
  without the author; each is collected once. One message is prepared for every
  recipient whose email address is not empty, addressed to that address, and none for
  a recipient without an address; the prepared messages, if there are any, go out as
  one batch.
\<close>

theorem C9_notification_recipients:
  "set (subscribers c a)
     = {u \<in> set (users c).
          ((\<exists>p. publisher a = Some p \<and> p \<in> subscribed_publishers u)
           \<or> (\<exists>j. author a = Some j \<and> j \<in> subscribed_journalists u))
          \<and> pk u \<noteq> author a}
   \<and> distinct (subscribers c a)
   \<and> map recipient_list (prepared_emails c a)
       = map (\<lambda>u. [email u]) (filter (\<lambda>u. email u \<noteq> []) (subscribers c a))
   \<and> length (prepared_emails c a) = card {u \<in> set (subscribers c a). email u \<noteq> []}
   \<and> send_email_notifications c a
       = (if prepared_emails c a = [] then [] else [MassMail (prepared_emails c a)])"
proof (intro conjI)
  show "map recipient_list (prepared_emails c a)
       = map (\<lambda>u. [email u]) (filter (\<lambda>u. email u \<noteq> []) (subscribers c a))"
    by (simp add: prepared_emails_def mail_for_def)
  show "send_email_notifications c a
       = (if prepared_emails c a = [] then [] else [MassMail (prepared_emails c a)])"
    by (simp add: send_email_notifications_def prepared_emails_def)
qed (rule set_subscribers distinct_subscribers length_prepared_emails)+

text \<open>C9 at an article of publisher 7 by journalist 3: two readers are recipients, the
  one with an address gets the one message.\<close>

theorem C9_notification_recipients_witness:
  "subscribers ex_ctx ex_approved = [ex_reader, ex_reader2]
   \<and> map recipient_list (prepared_emails ex_ctx ex_approved) = [[''rita@example.org'']]
   \<and> card {u \<in> set (subscribers ex_ctx ex_approved). email u \<noteq> []} = 1"
proof -
  have s: "subscribers ex_ctx ex_approved = [ex_reader, ex_reader2]"
    by (simp add: subscribers_def publisher_subscribers_def journalist_subscribers_def
          ex_ctx_def ex_approved_def ex_pending_def ex_reader_def ex_reader2_def ex_editor_def
          ex_journalist_def ex_owner_def)
  have m: "map recipient_list (prepared_emails ex_ctx ex_approved) = [[''rita@example.org'']]"
    by (simp add: prepared_emails_def s mail_for_def ex_reader_def ex_reader2_def)
  have "length (map recipient_list (prepared_emails ex_ctx ex_approved)) = 1"
    by (simp only: m) simp
  then have l: "length (prepared_emails ex_ctx ex_approved) = 1"
    by simp
  have "card {u \<in> set (subscribers ex_ctx ex_approved). email u \<noteq> []} = 1"
    using C9_notification_recipients [of ex_ctx ex_approved] l by simp
  with s m show ?thesis
    by simp
qed

section \<open>Editing a rejected article\<close>

text \<open>The edit goes through exactly when the user may edit the article, the request is
  a POST and the form is valid.\<close>

lemma edit_article_succeeds:
  "fst (edit_article c now (Some u) m cleaned a) = Redirect ''article_detail''
   \<longleftrightarrow> ((role u = Journalist \<and> author a = pk u \<and> \<not> is_approved a) \<or> role u = Editor)
       \<and> m = POST \<and> form_is_valid c cleaned a"
  by (auto simp add: edit_article_def Let_def split_def form_is_valid_def
        split: option.splits if_splits)

text \<open>
  C10. When an edit of a rejected article goes through and the user is a journalist,
  the user is the author and the article is pending afterwards: \<open>is_rejected\<close> is false,
  \<open>rejected_reason\<close>, \<open>rejected_by\<close> and \<open>rejected_date\<close> are cleared, and it is not
  approved. When the user is an editor, the four rejection fields are as before.
\<close>

theorem C10_edit_resets_rejection:
  assumes "is_rejected a"
    and "fst (edit_article c now (Some u) m cleaned a) = Redirect ''article_detail''"
  shows "(role u = Journalist \<longrightarrow>
            author a = pk u
            \<and> \<not> is_rejected (result_article (edit_article c now (Some u) m cleaned a))
            \<and> rejected_reason (result_article (edit_article c now (Some u) m cleaned a)) = None
            \<and> rejected_by (result_article (edit_article c now (Some u) m cleaned a)) = None
            \<and> rejected_date (result_article (edit_article c now (Some u) m cleaned a)) = None
            \<and> \<not> is_approved (result_article (edit_article c now (Some u) m cleaned a)))
         \<and> (role u = Editor \<longrightarrow>
            is_rejected (result_article (edit_article c now (Some u) m cleaned a))
            \<and> rejected_reason (result_article (edit_article c now (Some u) m cleaned a))
                = rejected_reason a
            \<and> rejected_by (result_article (edit_article c now (Some u) m cleaned a))
                = rejected_by a
            \<and> rejected_date (result_article (edit_article c now (Some u) m cleaned a))
                = rejected_date a)"
  using assms
  by (auto simp add: edit_article_def result_article_def Let_def split_def article_save_flags
        construct_instance_flags split: option.splits if_splits)

text \<open>C10 at a rejected article, edited by its author and by an editor.\<close>

theorem C10_edit_resets_rejection_witness:
  "is_rejected ex_rejected
   \<and> fst (edit_article ex_ctx 120 (Some ex_journalist) POST (Some ex_form) ex_rejected)
       = Redirect ''article_detail''
   \<and> fst (edit_article ex_ctx 120 (Some ex_editor) POST (Some ex_form) ex_rejected)
       = Redirect ''article_detail''
   \<and> \<not> is_rejected (result_article
          (edit_article ex_ctx 120 (Some ex_journalist) POST (Some ex_form) ex_rejected))
   \<and> rejected_reason (result_article
          (edit_article ex_ctx 120 (Some ex_journalist) POST (Some ex_form) ex_rejected)) = None
   \<and> rejected_reason (result_article
          (edit_article ex_ctx 120 (Some ex_editor) POST (Some ex_form) ex_rejected))
       = Some ''too thin''"
proof -
  have r: "is_rejected ex_rejected"
    by (simp add: ex_rejected_def)
  have v: "form_is_valid ex_ctx (Some ex_form) ex_rejected"
    by (simp add: form_is_valid_def Article_clean_def construct_instance_def user_role_def
          find_user_def ex_ctx_def ex_rejected_def ex_pending_def ex_reader_def ex_editor_def
          ex_journalist_def)
  have j: "fst (edit_article ex_ctx 120 (Some ex_journalist) POST (Some ex_form) ex_rejected)
           = Redirect ''article_detail''"
    by (simp add: edit_article_succeeds v) (simp add: ex_journalist_def ex_rejected_def ex_pending_def)
  have e: "fst (edit_article ex_ctx 120 (Some ex_editor) POST (Some ex_form) ex_rejected)
           = Redirect ''article_detail''"
    by (simp add: edit_article_succeeds v) (simp add: ex_editor_def)
  show ?thesis
    using r j e C10_edit_resets_rejection [OF r j] C10_edit_resets_rejection [OF r e]
    by (simp add: ex_journalist_def ex_editor_def ex_rejected_def)
qed

end
